theory Spec2Isabelle
  imports Main "HOL-Library.Word"
begin

section \<open>Platform values\<close>

text \<open>
  The constants of this section come from the platform headers the source includes.
  An \<open>HRESULT\<close> is a signed 32-bit code, negative on failure; a \<open>GUID\<close> is a 128-bit
  identifier, written here as one number in the order of its printed form.
\<close>

type_synonym HRESULT = "32 word"
type_synonym GUID = "128 word"
type_synonym DWORD = "32 word"

definition S_OK :: HRESULT where
  "S_OK = 0"

definition E_NOINTERFACE :: HRESULT where
  "E_NOINTERFACE = 0x80004002"

definition E_POINTER :: HRESULT where
  "E_POINTER = 0x80004003"

definition FAILED :: "HRESULT \<Rightarrow> bool" where
  "FAILED hr = (sint hr < 0)"

definition GUID_NULL :: GUID where
  "GUID_NULL = 0"

definition KSMEDIUMSETID_Standard :: GUID where
  "KSMEDIUMSETID_Standard = 0x4747B32062CE11CFA5D628DB04C10000"

definition IsEqualGUID :: "GUID \<Rightarrow> GUID \<Rightarrow> bool" where
  "IsEqualGUID a b = (a = b)"

datatype PIN_DIRECTION = PINDIR_INPUT | PINDIR_OUTPUT

text \<open>
  Wide strings are lists of characters without the terminating zero; a string pointer
  that may be null is a \<open>string option\<close>. \<open>wcscmp\<close> is the C library's comparison:
  negative, zero or positive, zero exactly for equal strings.
\<close>

fun wcscmp :: "string \<Rightarrow> string \<Rightarrow> int" where
  "wcscmp [] [] = 0"
| "wcscmp [] (y # ys) = - 1"
| "wcscmp (x # xs) [] = 1"
| "wcscmp (x # xs) (y # ys) =
     (if x = y then wcscmp xs ys
      else if (of_char x :: nat) < of_char y then - 1 else 1)"

section \<open>Objects behind the interface pointers\<close>

text \<open>
  An interface pointer is modelled by what its methods answer. A call whose result the
  source only tests with \<open>FAILED\<close> answers \<open>None\<close> for any failure code and
  \<open>Some\<close> of what it stores otherwise; an enumerator is the list its \<open>Next\<close>
  hands out one element at a time, answering \<open>S_OK\<close> until the list is used up.
  Reference counts and the warning log are left out. The byte size that comes with the
  capability count only sizes a scratch buffer for \<open>GetStreamCaps\<close>; it is taken to be
  a valid buffer size and the buffer is left out.
\<close>

record AM_MEDIA_TYPE =
  majortype :: GUID

record REGPINMEDIUM =
  clsMedium :: GUID
  dw1 :: DWORD
  dw2 :: DWORD

record PIN_INFO =
  achName :: string

record IAMStreamConfig =
  GetNumberOfCapabilities :: "(int \<times> int) option"
  GetStreamCaps :: "int \<Rightarrow> AM_MEDIA_TYPE option"

record IKsPropertySet =
  Get_PIN_CATEGORY :: "HRESULT \<times> GUID"

record IKsPin =
  KsQueryMediums :: "REGPINMEDIUM list option"

record IPin =
  QueryInterface_IAMStreamConfig :: "IAMStreamConfig option"
  EnumMediaTypes :: "AM_MEDIA_TYPE list option"
  QueryDirection :: "PIN_DIRECTION option"
  QueryInterface_IKsPropertySet :: "IKsPropertySet option"
  QueryPinInfo :: "PIN_INFO option"
  QueryInterface_IKsPin :: "IKsPin option"

record IBaseFilter =
  filter_address :: nat
  EnumPins :: "IPin list option"

record IMoniker =
  BindToObject :: "IBaseFilter option"

section \<open>Device filter by name and path\<close>

record DeviceFilterCallbackInfo =
  info_filter :: "IBaseFilter option"
  info_name :: "string option"
  info_path :: "string option"

definition GetDeviceCallback ::
  "DeviceFilterCallbackInfo \<Rightarrow> IBaseFilter \<Rightarrow> string \<Rightarrow> string option \<Rightarrow>
   bool \<times> DeviceFilterCallbackInfo" where
  "GetDeviceCallback info flt name path =
     (if (case info_name info of None \<Rightarrow> False | Some n \<Rightarrow> wcscmp name n \<noteq> 0)
      then (True, info)
      else
        let info' = info\<lparr>info_filter := Some flt\<rparr> in
        if (case path of
              None \<Rightarrow> True
            | Some p \<Rightarrow>
               (case info_path info' of None \<Rightarrow> True | Some q \<Rightarrow> wcscmp p q \<noteq> 0))
        then (True, info')
        else (False, info'))"

record device =
  device_filter :: IBaseFilter
  device_name :: string
  device_path :: "string option"

type_synonym EnumDeviceCallback =
  "DeviceFilterCallbackInfo \<Rightarrow> IBaseFilter \<Rightarrow> string \<Rightarrow> string option \<Rightarrow>
   bool \<times> DeviceFilterCallbackInfo"

text \<open>
  Modelled from the spec: the device enumerator \<open>EnumDevices\<close> is declared in
  \<open>dshow-enum.hpp\<close> and its body is not among the sources. By the specification's
  section on external interfaces it visits every registered device of the class in
  platform order, handing the visitor the filter, the name and the path, and stops early
  when the visitor answers "stop". The registry is a function from the device class to
  the devices it lists, \<open>None\<close> when the enumeration cannot be set up.
\<close>

fun EnumDevices_visit ::
  "EnumDeviceCallback \<Rightarrow> device list \<Rightarrow> DeviceFilterCallbackInfo \<Rightarrow>
   DeviceFilterCallbackInfo" where
  "EnumDevices_visit callback [] param = param"
| "EnumDevices_visit callback (d # ds) param =
     (case callback param (device_filter d) (device_name d) (device_path d) of
        (True, param') \<Rightarrow> EnumDevices_visit callback ds param'
      | (False, param') \<Rightarrow> param')"

definition EnumDevices ::
  "(GUID \<Rightarrow> device list option) \<Rightarrow> GUID \<Rightarrow> EnumDeviceCallback \<Rightarrow>
   DeviceFilterCallbackInfo \<Rightarrow> bool \<times> DeviceFilterCallbackInfo" where
  "EnumDevices registry type callback param =
     (case registry type of
        None \<Rightarrow> (False, param)
      | Some ds \<Rightarrow> (True, EnumDevices_visit callback ds param))"

definition GetDeviceFilter ::
  "(GUID \<Rightarrow> device list option) \<Rightarrow> GUID \<Rightarrow> string option \<Rightarrow> string option \<Rightarrow>
   IBaseFilter option \<Rightarrow> bool \<times> IBaseFilter option" where
  "GetDeviceFilter registry type name path out =
     (let info = \<lparr>info_filter = None, info_name = name, info_path = path\<rparr> in
      case EnumDevices registry type GetDeviceCallback info of
        (False, info') \<Rightarrow> (False, out)
      | (True, info') \<Rightarrow>
          (case info_filter info' of
             Some f \<Rightarrow> (True, Some f)
           | None \<Rightarrow> (False, out)))"

section \<open>Predicates on a pin\<close>

function PinConfigHasMajorType_loop ::
  "IAMStreamConfig \<Rightarrow> GUID \<Rightarrow> int \<Rightarrow> int \<Rightarrow> bool" where
  "PinConfigHasMajorType_loop config type count i =
     (if i < count then
        (case GetStreamCaps config i of
           Some mt \<Rightarrow>
             if majortype mt = type then True
             else PinConfigHasMajorType_loop config type count (i + 1)
         | None \<Rightarrow> PinConfigHasMajorType_loop config type count (i + 1))
      else False)"
  by pat_completeness auto
termination
  by (relation "measure (\<lambda>(config, type, count, i). nat (count - i))") auto

declare PinConfigHasMajorType_loop.simps [simp del]

definition PinConfigHasMajorType :: "IPin \<Rightarrow> GUID \<Rightarrow> bool" where
  "PinConfigHasMajorType pin type =
     (case QueryInterface_IAMStreamConfig pin of
        None \<Rightarrow> False
      | Some config \<Rightarrow>
          (case GetNumberOfCapabilities config of
             None \<Rightarrow> False
           | Some (count, size') \<Rightarrow> PinConfigHasMajorType_loop config type count 0))"

definition PinHasMajorType :: "IPin \<Rightarrow> GUID \<Rightarrow> bool" where
  "PinHasMajorType pin type =
     (if PinConfigHasMajorType pin type then True
      else
        case EnumMediaTypes pin of
          None \<Rightarrow> False
        | Some mediaEnum \<Rightarrow>
            (case mediaEnum of
               [] \<Rightarrow> False
             | mt # rest \<Rightarrow> majortype mt = type))"

definition PinIsDirection :: "IPin option \<Rightarrow> PIN_DIRECTION \<Rightarrow> bool" where
  "PinIsDirection pin dir =
     (case pin of
        None \<Rightarrow> False
      | Some p \<Rightarrow>
          (case QueryDirection p of
             None \<Rightarrow> False
           | Some pinDir \<Rightarrow> pinDir = dir))"

text \<open>
  \<open>GetPinCategory\<close> answers a result code and writes the category through a reference;
  the model takes the old content of that variable and returns the new one. The property
  set's \<open>Get\<close> answers its own code together with the value it stores. In
  \<open>PinIsCategory\<close> the variable is a local without initialiser; the model starts it at
  zero, and lemma \<open>GetPinCategory_start_irrelevant\<close> shows that the start value never
  reaches the result.
\<close>

definition GetPinCategory :: "IPin option \<Rightarrow> GUID \<Rightarrow> HRESULT \<times> GUID" where
  "GetPinCategory pin category =
     (case pin of
        None \<Rightarrow> (E_POINTER, category)
      | Some p \<Rightarrow>
          (case QueryInterface_IKsPropertySet p of
             None \<Rightarrow> (E_NOINTERFACE, category)
           | Some propertySet \<Rightarrow> Get_PIN_CATEGORY propertySet))"

definition PinIsCategory :: "IPin option \<Rightarrow> GUID \<Rightarrow> bool" where
  "PinIsCategory pin category =
     (case pin of
        None \<Rightarrow> False
      | Some p \<Rightarrow>
          (case GetPinCategory pin GUID_NULL of
             (hr, pinCategory) \<Rightarrow>
               if FAILED hr then hr = E_NOINTERFACE
               else category = pinCategory))"

definition PinNameIs :: "IPin option \<Rightarrow> string option \<Rightarrow> bool" where
  "PinNameIs pin name =
     (case pin of
        None \<Rightarrow> False
      | Some p \<Rightarrow>
          (case name of
             None \<Rightarrow> True
           | Some n \<Rightarrow>
               (case QueryPinInfo p of
                  None \<Rightarrow> False
                | Some pinInfo \<Rightarrow> wcscmp n (achName pinInfo) = 0)))"

definition PinMatches :: "IPin \<Rightarrow> GUID \<Rightarrow> GUID \<Rightarrow> PIN_DIRECTION \<Rightarrow> bool" where
  "PinMatches pin type category dir =
     (if \<not> PinHasMajorType pin type then False
      else if \<not> PinIsDirection (Some pin) dir then False
      else if \<not> PinIsCategory (Some pin) category then False
      else True)"

section \<open>Medium of a pin\<close>

text \<open>
  The driver's answer to \<open>KsQueryMediums\<close> is a counted block of entries laid out as
  \<open>REGPINMEDIUM\<close> values; the model takes it as the list of those entries. The scan
  stops at the first entry whose class is neither of the two sentinels.
\<close>

fun GetPinMedium_loop :: "REGPINMEDIUM list \<Rightarrow> REGPINMEDIUM option" where
  "GetPinMedium_loop [] = None"
| "GetPinMedium_loop (curMed # rest) =
     (if \<not> IsEqualGUID (clsMedium curMed) GUID_NULL \<and>
         \<not> IsEqualGUID (clsMedium curMed) KSMEDIUMSETID_Standard
      then Some curMed
      else GetPinMedium_loop rest)"

definition zero_medium :: REGPINMEDIUM where
  "zero_medium = \<lparr>clsMedium = 0, dw1 = 0, dw2 = 0\<rparr>"

definition GetPinMedium :: "IPin \<Rightarrow> REGPINMEDIUM \<Rightarrow> bool \<times> REGPINMEDIUM" where
  "GetPinMedium pin medium =
     (case QueryInterface_IKsPin pin of
        None \<Rightarrow> (False, medium)
      | Some ksPin \<Rightarrow>
          (case KsQueryMediums ksPin of
             None \<Rightarrow> (False, medium)
           | Some items \<Rightarrow>
               (case GetPinMedium_loop items of
                  Some curMed \<Rightarrow> (True, curMed)
                | None \<Rightarrow> (False, zero_medium))))"

section \<open>Walking the pins of a filter\<close>

text \<open>
  Each walk takes the filter pointer (\<open>None\<close> when null) and the old content of the
  caller's pin variable, and returns the success flag with the new content.
\<close>

fun GetFilterPin_loop ::
  "IPin list \<Rightarrow> GUID \<Rightarrow> GUID \<Rightarrow> PIN_DIRECTION \<Rightarrow> IPin option \<Rightarrow> bool \<times> IPin option" where
  "GetFilterPin_loop [] type category dir pin = (False, pin)"
| "GetFilterPin_loop (curPin # rest) type category dir pin =
     (if PinMatches curPin type category dir then (True, Some curPin)
      else GetFilterPin_loop rest type category dir pin)"

definition GetFilterPin ::
  "IBaseFilter option \<Rightarrow> GUID \<Rightarrow> GUID \<Rightarrow> PIN_DIRECTION \<Rightarrow> IPin option \<Rightarrow>
   bool \<times> IPin option" where
  "GetFilterPin flt type category dir pin =
     (case flt of
        None \<Rightarrow> (False, pin)
      | Some f \<Rightarrow>
          (case EnumPins f of
             None \<Rightarrow> (False, pin)
           | Some pinsEnum \<Rightarrow> GetFilterPin_loop pinsEnum type category dir pin))"

fun GetPinByName_loop ::
  "IPin list \<Rightarrow> PIN_DIRECTION \<Rightarrow> string option \<Rightarrow> IPin option \<Rightarrow> bool \<times> IPin option" where
  "GetPinByName_loop [] dir name pin = (False, pin)"
| "GetPinByName_loop (curPin # rest) dir name pin =
     (if PinIsDirection (Some curPin) dir \<and> PinNameIs (Some curPin) name
      then (True, Some curPin)
      else GetPinByName_loop rest dir name pin)"

definition GetPinByName ::
  "IBaseFilter option \<Rightarrow> PIN_DIRECTION \<Rightarrow> string option \<Rightarrow> IPin option \<Rightarrow>
   bool \<times> IPin option" where
  "GetPinByName flt dir name pin =
     (case flt of
        None \<Rightarrow> (False, pin)
      | Some f \<Rightarrow>
          (case EnumPins f of
             None \<Rightarrow> (False, pin)
           | Some pinsEnum \<Rightarrow> GetPinByName_loop pinsEnum dir name pin))"

text \<open>
  The medium read from the current pin lives in a local without initialiser; it is
  compared only after \<open>GetPinMedium\<close> has succeeded and so has written it. The model
  starts it at zero, and lemma \<open>GetPinMedium_start_irrelevant\<close> shows that a successful
  read does not depend on the start value. Comparing all bytes of two mediums is comparing
  their three fields.
\<close>

fun GetPinByMedium_loop ::
  "IPin list \<Rightarrow> REGPINMEDIUM \<Rightarrow> IPin option \<Rightarrow> bool \<times> IPin option" where
  "GetPinByMedium_loop [] medium pin = (False, pin)"
| "GetPinByMedium_loop (curPin # rest) medium pin =
     (case GetPinMedium curPin zero_medium of
        (ok, curMedium) \<Rightarrow>
          if ok \<and> medium = curMedium then (True, Some curPin)
          else GetPinByMedium_loop rest medium pin)"

definition GetPinByMedium ::
  "IBaseFilter option \<Rightarrow> REGPINMEDIUM \<Rightarrow> IPin option \<Rightarrow> bool \<times> IPin option" where
  "GetPinByMedium flt medium pin =
     (case flt of
        None \<Rightarrow> (False, pin)
      | Some f \<Rightarrow>
          (case EnumPins f of
             None \<Rightarrow> (False, pin)
           | Some pinsEnum \<Rightarrow> GetPinByMedium_loop pinsEnum medium pin))"

section \<open>Filter by medium\<close>

definition GetFilterByMediumFromMoniker ::
  "IMoniker \<Rightarrow> REGPINMEDIUM \<Rightarrow> IBaseFilter option \<Rightarrow> bool \<times> IBaseFilter option" where
  "GetFilterByMediumFromMoniker moniker medium flt =
     (case BindToObject moniker of
        Some curFilter \<Rightarrow>
          (case GetPinByMedium (Some curFilter) medium None of
             (True, pin) \<Rightarrow> (True, Some curFilter)
           | (False, pin) \<Rightarrow> (False, flt))
      | None \<Rightarrow> (False, flt))"

fun GetFilterByMedium_loop ::
  "IMoniker list \<Rightarrow> REGPINMEDIUM \<Rightarrow> IBaseFilter option \<Rightarrow> bool \<times> IBaseFilter option" where
  "GetFilterByMedium_loop [] medium flt = (False, flt)"
| "GetFilterByMedium_loop (moniker # rest) medium flt =
     (case GetFilterByMediumFromMoniker moniker medium flt of
        (True, flt') \<Rightarrow> (True, flt')
      | (False, flt') \<Rightarrow> GetFilterByMedium_loop rest medium flt')"

text \<open>
  The system device enumerator is what \<open>CoCreateInstance\<close> answers (\<open>None\<close> on
  failure): a function from the class identifier to the monikers of its class
  enumerator, \<open>None\<close> when \<open>CreateClassEnumerator\<close> fails. A call that does not
  fail is taken to hand out an enumerator, as the source takes it.
\<close>

type_synonym ICreateDevEnum = "GUID \<Rightarrow> IMoniker list option"

definition GetFilterByMedium ::
  "ICreateDevEnum option \<Rightarrow> GUID \<Rightarrow> REGPINMEDIUM \<Rightarrow> IBaseFilter option \<Rightarrow>
   bool \<times> IBaseFilter option" where
  "GetFilterByMedium CoCreateInstance id' medium flt =
     (case CoCreateInstance of
        None \<Rightarrow> (False, flt)
      | Some deviceEnum \<Rightarrow>
          (case deviceEnum id' of
             None \<Rightarrow> (False, flt)
           | Some enumMoniker \<Rightarrow> GetFilterByMedium_loop enumMoniker medium flt))"

section \<open>Vocabulary of the properties\<close>

text \<open>
  The predicates below name what the properties speak about; none of them is part of
  the program. A device matches by name when the name criterion is unset or equal to the
  device's name; it matches fully when, in addition, the path criterion is set and the
  device has that very path.
\<close>

definition name_matches :: "string option \<Rightarrow> device \<Rightarrow> bool" where
  "name_matches name d = (case name of None \<Rightarrow> True | Some n \<Rightarrow> device_name d = n)"

definition fully_matches :: "string option \<Rightarrow> string option \<Rightarrow> device \<Rightarrow> bool" where
  "fully_matches name path d =
     (name_matches name d \<and>
      (case path of None \<Rightarrow> False | Some q \<Rightarrow> device_path d = Some q))"

text \<open>
  The resolver as the specification words it, for a set name: the traversal stops at
  the first device that matches the name and either matches the path or meets an unset
  path criterion; failing that, the last device that matched the name is the result.
\<close>

definition ResolveDeviceFilter_as_claimed ::
  "device list \<Rightarrow> string \<Rightarrow> string option \<Rightarrow> IBaseFilter option" where
  "ResolveDeviceFilter_as_claimed ds n path =
     (case find (\<lambda>d. device_name d = n \<and> (path = None \<or> device_path d = path)) ds of
        Some d \<Rightarrow> Some (device_filter d)
      | None \<Rightarrow>
          (case find (\<lambda>d. device_name d = n) (rev ds) of
             Some d \<Rightarrow> Some (device_filter d)
           | None \<Rightarrow> None))"

text \<open>
  A pin has a medium when \<open>GetPinMedium\<close> succeeds on it with that medium; a filter
  exposes a medium when its pins can be enumerated and one of them has it; a moniker
  matches a medium when it can be instantiated and the filter exposes the medium.
\<close>

definition pin_has_medium :: "IPin \<Rightarrow> REGPINMEDIUM \<Rightarrow> bool" where
  "pin_has_medium pin medium = (GetPinMedium pin zero_medium = (True, medium))"

definition exposes_medium :: "IBaseFilter \<Rightarrow> REGPINMEDIUM \<Rightarrow> bool" where
  "exposes_medium f medium =
     (case EnumPins f of
        None \<Rightarrow> False
      | Some pins \<Rightarrow> list_ex (\<lambda>p. pin_has_medium p medium) pins)"

definition candidate_matches :: "IMoniker \<Rightarrow> REGPINMEDIUM \<Rightarrow> bool" where
  "candidate_matches moniker medium =
     (case BindToObject moniker of
        None \<Rightarrow> False
      | Some f \<Rightarrow> exposes_medium f medium)"

section \<open>Sample objects\<close>

text \<open>
  Concrete pins, filters and devices on which the theorems are evaluated. The
  identifiers are the platform's: the two major types, two pin categories and the
  failure code a property set answers for a property it does not support.
\<close>

definition MEDIATYPE_Video :: GUID where
  "MEDIATYPE_Video = 0x7364697600000010800000AA00389B71"

definition MEDIATYPE_Audio :: GUID where
  "MEDIATYPE_Audio = 0x7364756100000010800000AA00389B71"

definition PIN_CATEGORY_CAPTURE :: GUID where
  "PIN_CATEGORY_CAPTURE = 0xFB6C4281035311D1905F0000C0CC16BA"

definition PIN_CATEGORY_PREVIEW :: GUID where
  "PIN_CATEGORY_PREVIEW = 0xFB6C4282035311D1905F0000C0CC16BA"

definition E_PROP_ID_UNSUPPORTED :: HRESULT where
  "E_PROP_ID_UNSUPPORTED = 0x80070490"

definition plain_pin :: IPin where
  "plain_pin =
     \<lparr>QueryInterface_IAMStreamConfig = None, EnumMediaTypes = None, QueryDirection = None,
      QueryInterface_IKsPropertySet = None, QueryPinInfo = None,
      QueryInterface_IKsPin = None\<rparr>"

definition typed_pin :: "GUID \<Rightarrow> PIN_DIRECTION \<Rightarrow> IPin" where
  "typed_pin type dir =
     plain_pin\<lparr>EnumMediaTypes := Some [\<lparr>majortype = type\<rparr>], QueryDirection := Some dir\<rparr>"

definition named_pin :: "string \<Rightarrow> IPin" where
  "named_pin n = plain_pin\<lparr>QueryPinInfo := Some \<lparr>achName = n\<rparr>\<rparr>"

definition category_pin :: "HRESULT \<Rightarrow> GUID \<Rightarrow> IPin" where
  "category_pin hr category =
     plain_pin\<lparr>QueryInterface_IKsPropertySet := Some \<lparr>Get_PIN_CATEGORY = (hr, category)\<rparr>\<rparr>"

definition caps_config :: "AM_MEDIA_TYPE option list \<Rightarrow> IAMStreamConfig" where
  "caps_config caps =
     \<lparr>GetNumberOfCapabilities = Some (int (length caps), 128),
      GetStreamCaps =
        (\<lambda>i. if 0 \<le> i \<and> i < int (length caps) then caps ! nat i else None)\<rparr>"

definition caps_pin :: "AM_MEDIA_TYPE option list \<Rightarrow> AM_MEDIA_TYPE list option \<Rightarrow> IPin" where
  "caps_pin caps offered =
     plain_pin\<lparr>QueryInterface_IAMStreamConfig := Some (caps_config caps),
               EnumMediaTypes := offered\<rparr>"

definition sample_medium :: REGPINMEDIUM where
  "sample_medium = \<lparr>clsMedium = 0x11, dw1 = 7, dw2 = 0\<rparr>"

definition other_medium :: REGPINMEDIUM where
  "other_medium = \<lparr>clsMedium = 0x12, dw1 = 7, dw2 = 0\<rparr>"

definition null_entry :: REGPINMEDIUM where
  "null_entry = \<lparr>clsMedium = GUID_NULL, dw1 = 1, dw2 = 2\<rparr>"

definition standard_entry :: REGPINMEDIUM where
  "standard_entry = \<lparr>clsMedium = KSMEDIUMSETID_Standard, dw1 = 3, dw2 = 4\<rparr>"

definition ks_pin :: "REGPINMEDIUM list option \<Rightarrow> IPin" where
  "ks_pin mediums = plain_pin\<lparr>QueryInterface_IKsPin := Some \<lparr>KsQueryMediums = mediums\<rparr>\<rparr>"

definition filterA :: IBaseFilter where
  "filterA = \<lparr>filter_address = 1, EnumPins = None\<rparr>"

definition filterB :: IBaseFilter where
  "filterB = \<lparr>filter_address = 2, EnumPins = None\<rparr>"

definition cams :: "device list" where
  "cams =
     [\<lparr>device_filter = filterA, device_name = ''Cam1'', device_path = Some ''A''\<rparr>,
      \<lparr>device_filter = filterB, device_name = ''Cam1'', device_path = Some ''B''\<rparr>]"

definition registry_of :: "device list \<Rightarrow> GUID \<Rightarrow> device list option" where
  "registry_of ds type = Some ds"

definition input_only_filter :: IBaseFilter where
  "input_only_filter =
     \<lparr>filter_address = 3,
      EnumPins = Some [typed_pin MEDIATYPE_Video PINDIR_INPUT,
                       typed_pin MEDIATYPE_Audio PINDIR_INPUT]\<rparr>"

definition capture_filter :: IBaseFilter where
  "capture_filter =
     \<lparr>filter_address = 4,
      EnumPins = Some [typed_pin MEDIATYPE_Video PINDIR_INPUT,
                       typed_pin MEDIATYPE_Audio PINDIR_OUTPUT,
                       typed_pin MEDIATYPE_Video PINDIR_OUTPUT,
                       (typed_pin MEDIATYPE_Video PINDIR_OUTPUT)
                         \<lparr>QueryPinInfo := Some \<lparr>achName = ''Capture''\<rparr>\<rparr>]\<rparr>"

definition tuner :: IBaseFilter where
  "tuner = \<lparr>filter_address = 10, EnumPins = Some [plain_pin, ks_pin (Some [null_entry])]\<rparr>"

definition crossbar :: IBaseFilter where
  "crossbar =
     \<lparr>filter_address = 20,
      EnumPins = Some [ks_pin None, ks_pin (Some [standard_entry, sample_medium])]\<rparr>"

definition class_monikers :: "IMoniker list" where
  "class_monikers =
     [\<lparr>BindToObject = None\<rparr>, \<lparr>BindToObject = Some tuner\<rparr>, \<lparr>BindToObject = None\<rparr>,
      \<lparr>BindToObject = Some crossbar\<rparr>]"

section \<open>Facts about the platform values and the list search\<close>

lemma wcscmp_eq_0_iff: "wcscmp a b = 0 \<longleftrightarrow> a = b"
  by (induction a b rule: wcscmp.induct) auto

lemma FAILED_E_NOINTERFACE: "FAILED E_NOINTERFACE"
  by (simp add: FAILED_def E_NOINTERFACE_def)

lemma FAILED_E_POINTER: "FAILED E_POINTER"
  by (simp add: FAILED_def E_POINTER_def)

lemma find_snoc:
  "find P (xs @ [x]) =
     (case find P xs of Some y \<Rightarrow> Some y | None \<Rightarrow> if P x then Some x else None)"
  by (induction xs) auto

lemma find_Some_holds: "find P xs = Some x \<Longrightarrow> x \<in> set xs \<and> P x"
  by (induction xs) (auto split: if_splits)

lemma find_cong_pred: "(\<And>x. P x = Q x) \<Longrightarrow> find P xs = find Q xs"
  by (induction xs) simp_all

lemma find_unique_index:
  assumes "i < length xs" and "P (xs ! i)" and "\<forall>j < length xs. j \<noteq> i \<longrightarrow> \<not> P (xs ! j)"
  shows "find P xs = Some (xs ! i)"
proof -
  have "\<exists>k < length xs. P (xs ! k) \<and> xs ! i = xs ! k \<and> (\<forall>j < k. \<not> P (xs ! j))"
    using assms by (intro exI [of _ i]) auto
  then show ?thesis
    by (simp add: find_Some_iff)
qed

section \<open>The device filter resolver\<close>

text \<open>
  One call of the visitor: a device whose name does not match leaves the record alone
  and asks to continue; any other device becomes the tentative result, and the visitor
  asks to stop exactly when the device matches fully.
\<close>

lemma GetDeviceCallback_cases:
  "GetDeviceCallback info flt name path =
     (if \<not> name_matches (info_name info)
            \<lparr>device_filter = flt, device_name = name, device_path = path\<rparr>
      then (True, info)
      else (\<not> fully_matches (info_name info) (info_path info)
               \<lparr>device_filter = flt, device_name = name, device_path = path\<rparr>,
            info\<lparr>info_filter := Some flt\<rparr>))"
  by (auto simp: GetDeviceCallback_def name_matches_def fully_matches_def wcscmp_eq_0_iff Let_def
      split: option.splits)

lemma EnumDevices_visit_GetDeviceCallback:
  "info_filter (EnumDevices_visit GetDeviceCallback ds info) =
     (case find (fully_matches (info_name info) (info_path info)) ds of
        Some d \<Rightarrow> Some (device_filter d)
      | None \<Rightarrow>
          (case find (name_matches (info_name info)) (rev ds) of
             Some d \<Rightarrow> Some (device_filter d)
           | None \<Rightarrow> info_filter info))"
proof (induction ds arbitrary: info)
  case Nil
  show ?case by simp
next
  case (Cons d ds)
  have d: "\<lparr>device_filter = device_filter d, device_name = device_name d,
            device_path = device_path d\<rparr> = d"
    by simp
  show ?case
  proof (cases "name_matches (info_name info) d")
    case False
    then have nf: "\<not> fully_matches (info_name info) (info_path info) d"
      by (simp add: fully_matches_def)
    have "EnumDevices_visit GetDeviceCallback (d # ds) info =
          EnumDevices_visit GetDeviceCallback ds info"
      using False by (simp add: GetDeviceCallback_cases d)
    then show ?thesis
      using False nf Cons.IH [of info] by (simp add: find_snoc split: option.splits)
  next
    case True
    note nm = this
    show ?thesis
    proof (cases "fully_matches (info_name info) (info_path info) d")
      case True
      have "EnumDevices_visit GetDeviceCallback (d # ds) info =
            info\<lparr>info_filter := Some (device_filter d)\<rparr>"
        using nm True by (simp add: GetDeviceCallback_cases d)
      then show ?thesis using True by simp
    next
      case False
      have "EnumDevices_visit GetDeviceCallback (d # ds) info =
            EnumDevices_visit GetDeviceCallback ds (info\<lparr>info_filter := Some (device_filter d)\<rparr>)"
        using nm False by (simp add: GetDeviceCallback_cases d)
      then show ?thesis
        using nm False Cons.IH [of "info\<lparr>info_filter := Some (device_filter d)\<rparr>"]
        by (simp add: find_snoc split: option.splits)
    qed
  qed
qed

lemma GetDeviceFilter_enumerated:
  assumes "registry type = Some ds"
  shows "GetDeviceFilter registry type name path out =
     (case find (fully_matches name path) ds of
        Some d \<Rightarrow> (True, Some (device_filter d))
      | None \<Rightarrow>
          (case find (name_matches name) (rev ds) of
             Some d \<Rightarrow> (True, Some (device_filter d))
           | None \<Rightarrow> (False, out)))"
  using assms
  by (simp add: GetDeviceFilter_def EnumDevices_def EnumDevices_visit_GetDeviceCallback
      split: option.splits)

lemma GetDeviceFilter_enumeration_fails:
  "registry type = None \<Longrightarrow> GetDeviceFilter registry type name path out = (False, out)"
  by (simp add: GetDeviceFilter_def EnumDevices_def)

text \<open>
  Claim C1, as stated, fails. With the name set to "Cam1", the path criterion unset and
  the devices ("Cam1", "A") and ("Cam1", "B") in this order, the visitor asks to continue
  on the first device although it matches the name and the path criterion is unset; the
  traversal goes on and the second device's filter is returned. Read as the claim words
  it, the traversal would have stopped at the first device and returned its filter.
\<close>

theorem GetDeviceFilter_path_unset_counterexample:
  "fst (GetDeviceCallback \<lparr>info_filter = None, info_name = Some ''Cam1'', info_path = None\<rparr>
          filterA ''Cam1'' (Some ''A'')) \<and>
   GetDeviceFilter (registry_of cams) 0 (Some ''Cam1'') None None = (True, Some filterB) \<and>
   ResolveDeviceFilter_as_claimed cams ''Cam1'' None = Some filterA \<and>
   filterA \<noteq> filterB"
  by (simp add: GetDeviceCallback_def GetDeviceFilter_def EnumDevices_def registry_of_def
      cams_def filterA_def filterB_def ResolveDeviceFilter_as_claimed_def)

text \<open>
  Claim C1, amended. For every sequence of devices visited with a set device name: the
  visitor asks to stop exactly on a device whose name equals the set name and whose path
  equals a set path criterion; the result is the first such device if there is one, and
  otherwise (in particular whenever the path criterion is unset) the last device whose
  name matched; not-found is returned exactly when no device's name matched.
\<close>

theorem GetDeviceFilter_last_name_first_full:
  assumes "registry type = Some ds"
  shows "fst (GetDeviceCallback \<lparr>info_filter = cur, info_name = Some n, info_path = path\<rparr>
                flt name' path') =
           (\<not> (name' = n \<and> path \<noteq> None \<and> path' = path)) \<and>
         GetDeviceFilter registry type (Some n) path out =
           (case find (\<lambda>d. device_name d = n \<and> path \<noteq> None \<and> device_path d = path) ds of
              Some d \<Rightarrow> (True, Some (device_filter d))
            | None \<Rightarrow>
                (case find (\<lambda>d. device_name d = n) (rev ds) of
                   Some d \<Rightarrow> (True, Some (device_filter d))
                 | None \<Rightarrow> (False, out))) \<and>
         ((fst (GetDeviceFilter registry type (Some n) path out) = False) =
            (\<forall>d \<in> set ds. device_name d \<noteq> n))"
proof (intro conjI)
  show "fst (GetDeviceCallback \<lparr>info_filter = cur, info_name = Some n, info_path = path\<rparr>
                flt name' path') =
           (\<not> (name' = n \<and> path \<noteq> None \<and> path' = path))"
    by (auto simp: GetDeviceCallback_def wcscmp_eq_0_iff Let_def split: option.splits)
next
  have full: "find (fully_matches (Some n) path) ds =
              find (\<lambda>d. device_name d = n \<and> path \<noteq> None \<and> device_path d = path) ds"
    by (rule find_cong_pred) (auto simp: fully_matches_def name_matches_def split: option.splits)
  have named: "find (name_matches (Some n)) (rev ds) = find (\<lambda>d. device_name d = n) (rev ds)"
    by (rule find_cong_pred) (simp add: name_matches_def)
  show result: "GetDeviceFilter registry type (Some n) path out =
           (case find (\<lambda>d. device_name d = n \<and> path \<noteq> None \<and> device_path d = path) ds of
              Some d \<Rightarrow> (True, Some (device_filter d))
            | None \<Rightarrow>
                (case find (\<lambda>d. device_name d = n) (rev ds) of
                   Some d \<Rightarrow> (True, Some (device_filter d))
                 | None \<Rightarrow> (False, out)))"
    unfolding GetDeviceFilter_enumerated
      [where registry = registry and type = type and ds = ds, OF assms] full named ..
  show "(fst (GetDeviceFilter registry type (Some n) path out) = False) =
            (\<forall>d \<in> set ds. device_name d \<noteq> n)"
  proof (cases "find (\<lambda>d. device_name d = n) (rev ds)")
    case None
    then have none: "\<forall>d \<in> set ds. device_name d \<noteq> n"
      by (auto simp: find_None_iff)
    then have "find (\<lambda>d. device_name d = n \<and> path \<noteq> None \<and> device_path d = path) ds = None"
      by (auto simp: find_None_iff)
    with None none show ?thesis
      by (simp add: result)
  next
    case (Some d)
    then have "d \<in> set (rev ds) \<and> device_name d = n"
      by (rule find_Some_holds)
    then have some: "\<exists>d \<in> set ds. device_name d = n"
      by auto
    from Some have "fst (GetDeviceFilter registry type (Some n) path out)"
      by (simp add: result split: option.splits)
    with some show ?thesis by auto
  qed
qed

theorem GetDeviceFilter_last_name_first_full_witness:
  "GetDeviceFilter (registry_of cams) 0 (Some ''Cam1'') None None = (True, Some filterB) \<and>
   GetDeviceFilter (registry_of cams) 0 (Some ''Cam1'') (Some ''A'') None = (True, Some filterA) \<and>
   GetDeviceFilter (registry_of cams) 0 (Some ''Cam1'') (Some ''C'') None = (True, Some filterB) \<and>
   GetDeviceFilter (registry_of cams) 0 (Some ''Cam2'') None None = (False, None)"
proof (intro conjI)
  show "GetDeviceFilter (registry_of cams) 0 (Some ''Cam1'') None None = (True, Some filterB)"
    using GetDeviceFilter_last_name_first_full
      [where registry = "registry_of cams" and type = 0 and ds = cams and n = "''Cam1''"
         and path = None and out = None, THEN conjunct2, THEN conjunct1]
    by (simp add: registry_of_def cams_def)
  show "GetDeviceFilter (registry_of cams) 0 (Some ''Cam1'') (Some ''A'') None =
          (True, Some filterA)"
    using GetDeviceFilter_last_name_first_full
      [where registry = "registry_of cams" and type = 0 and ds = cams and n = "''Cam1''"
         and path = "Some ''A''" and out = None, THEN conjunct2, THEN conjunct1]
    by (simp add: registry_of_def cams_def)
  show "GetDeviceFilter (registry_of cams) 0 (Some ''Cam1'') (Some ''C'') None =
          (True, Some filterB)"
    using GetDeviceFilter_last_name_first_full
      [where registry = "registry_of cams" and type = 0 and ds = cams and n = "''Cam1''"
         and path = "Some ''C''" and out = None, THEN conjunct2, THEN conjunct1]
    by (simp add: registry_of_def cams_def)
  show "GetDeviceFilter (registry_of cams) 0 (Some ''Cam2'') None None = (False, None)"
    using GetDeviceFilter_last_name_first_full
      [where registry = "registry_of cams" and type = 0 and ds = cams and n = "''Cam2''"
         and path = None and out = None, THEN conjunct2, THEN conjunct1]
    by (simp add: registry_of_def cams_def)
qed

text \<open>
  Claim C2. When the name and the path criterion are both set and some visited device
  matches both, the resolver returns the first such device, not an earlier device that
  matched the name only: with name "Cam1", path "B" and the devices ("Cam1", "A"),
  ("Cam1", "B") the result is the filter of ("Cam1", "B").
\<close>

theorem GetDeviceFilter_prefers_full_match:
  assumes "registry type = Some ds"
    and "find (\<lambda>d. device_name d = n \<and> device_path d = Some p) ds = Some d"
  shows "GetDeviceFilter registry type (Some n) (Some p) out = (True, Some (device_filter d))"
proof -
  have "find (fully_matches (Some n) (Some p)) ds =
        find (\<lambda>d. device_name d = n \<and> device_path d = Some p) ds"
    by (rule find_cong_pred) (simp add: fully_matches_def name_matches_def)
  with assms(2) show ?thesis
    using GetDeviceFilter_enumerated
      [where registry = registry and type = type and ds = ds and name = "Some n"
         and path = "Some p" and out = out] assms(1) by simp
qed

theorem GetDeviceFilter_prefers_full_match_witness:
  "GetDeviceFilter (registry_of cams) 0 (Some ''Cam1'') (Some ''B'') None =
     (True, Some filterB) \<and>
   filterB \<noteq> filterA"
  using GetDeviceFilter_prefers_full_match
    [where registry = "registry_of cams" and type = 0 and ds = cams and n = "''Cam1''"
       and p = "''B''" and out = None
       and d = "\<lparr>device_filter = filterB, device_name = ''Cam1'', device_path = Some ''B''\<rparr>"]
  by (simp add: registry_of_def cams_def filterA_def filterB_def)

section \<open>The predicates on a pin\<close>

text \<open>
  The capability loop, started at index \<open>i\<close>, answers true exactly when some index
  from \<open>i\<close> up to the count holds a retrievable entry of the requested major type.
\<close>

lemma PinConfigHasMajorType_loop_iff:
  "PinConfigHasMajorType_loop config type count i =
     (\<exists>j mt. i \<le> j \<and> j < count \<and> GetStreamCaps config j = Some mt \<and> majortype mt = type)"
proof (induction config type count i rule: PinConfigHasMajorType_loop.induct)
  case (1 config type count i)
  show ?case
  proof (cases "i < count")
    case False
    then show ?thesis
      by (subst PinConfigHasMajorType_loop.simps) auto
  next
    case True
    note lt = this
    show ?thesis
    proof (cases "GetStreamCaps config i")
      case None
      have "PinConfigHasMajorType_loop config type count i =
            PinConfigHasMajorType_loop config type count (i + 1)"
        using lt None by (subst PinConfigHasMajorType_loop.simps) simp
      also have "\<dots> = (\<exists>j mt. i + 1 \<le> j \<and> j < count \<and>
                        GetStreamCaps config j = Some mt \<and> majortype mt = type)"
        using "1.IH"(1) [OF lt None] .
      also have "\<dots> = (\<exists>j mt. i \<le> j \<and> j < count \<and>
                        GetStreamCaps config j = Some mt \<and> majortype mt = type)"
      proof (intro iffI; elim exE conjE)
        fix j mt
        assume "i + 1 \<le> j" "j < count" "GetStreamCaps config j = Some mt" "majortype mt = type"
        then show "\<exists>j mt. i \<le> j \<and> j < count \<and> GetStreamCaps config j = Some mt \<and>
                     majortype mt = type"
          by (intro exI [of _ j] exI [of _ mt]) simp
      next
        fix j mt
        assume a: "i \<le> j" "j < count" "GetStreamCaps config j = Some mt" "majortype mt = type"
        with None have "j \<noteq> i" by auto
        with a show "\<exists>j mt. i + 1 \<le> j \<and> j < count \<and> GetStreamCaps config j = Some mt \<and>
                       majortype mt = type"
          by (intro exI [of _ j] exI [of _ mt]) simp
      qed
      finally show ?thesis .
    next
      case (Some m)
      show ?thesis
      proof (cases "majortype m = type")
        case True
        then have "PinConfigHasMajorType_loop config type count i"
          using lt Some by (subst PinConfigHasMajorType_loop.simps) simp
        moreover have "\<exists>j mt. i \<le> j \<and> j < count \<and> GetStreamCaps config j = Some mt \<and>
                         majortype mt = type"
          using lt Some True by (intro exI [of _ i] exI [of _ m]) simp
        ultimately show ?thesis by simp
      next
        case False
        have "PinConfigHasMajorType_loop config type count i =
              PinConfigHasMajorType_loop config type count (i + 1)"
          using lt Some False by (subst PinConfigHasMajorType_loop.simps) simp
        also have "\<dots> = (\<exists>j mt. i + 1 \<le> j \<and> j < count \<and>
                          GetStreamCaps config j = Some mt \<and> majortype mt = type)"
          using "1.IH"(2) [OF lt Some False] .
        also have "\<dots> = (\<exists>j mt. i \<le> j \<and> j < count \<and>
                          GetStreamCaps config j = Some mt \<and> majortype mt = type)"
        proof (intro iffI; elim exE conjE)
          fix j mt
          assume "i + 1 \<le> j" "j < count" "GetStreamCaps config j = Some mt"
            "majortype mt = type"
          then show "\<exists>j mt. i \<le> j \<and> j < count \<and> GetStreamCaps config j = Some mt \<and>
                       majortype mt = type"
            by (intro exI [of _ j] exI [of _ mt]) simp
        next
          fix j mt
          assume a: "i \<le> j" "j < count" "GetStreamCaps config j = Some mt" "majortype mt = type"
          with Some False have "j \<noteq> i" by auto
          with a show "\<exists>j mt. i + 1 \<le> j \<and> j < count \<and> GetStreamCaps config j = Some mt \<and>
                         majortype mt = type"
            by (intro exI [of _ j] exI [of _ mt]) simp
        qed
        finally show ?thesis .
      qed
    qed
  qed
qed

text \<open>
  Without a usable capability list the answer is that of the first media type the pin
  offers.
\<close>

lemma PinHasMajorType_fallback:
  "\<not> PinConfigHasMajorType pin type \<Longrightarrow>
     PinHasMajorType pin type =
       (case EnumMediaTypes pin of
          None \<Rightarrow> False
        | Some [] \<Rightarrow> False
        | Some (mt # rest) \<Rightarrow> majortype mt = type)"
  by (simp add: PinHasMajorType_def split: option.splits list.splits)

text \<open>
  Claim C3. For every pin whose stream-configuration capability list holds, at some
  index below its count, an entry of major type \<open>T\<close>, the capability check succeeds and
  \<open>PinHasMajorType\<close> answers true whatever media types the pin currently offers: the
  capability list is consulted first and decides.
\<close>

theorem PinHasMajorType_capabilities_first:
  assumes "QueryInterface_IAMStreamConfig pin = Some config"
    and "GetNumberOfCapabilities config = Some (count, sz)"
    and "0 \<le> j" and "j < count"
    and "GetStreamCaps config j = Some mt" and "majortype mt = T"
  shows "PinConfigHasMajorType pin T \<and> PinHasMajorType (pin\<lparr>EnumMediaTypes := offered\<rparr>) T"
proof -
  have loop: "PinConfigHasMajorType_loop config T count 0"
    unfolding PinConfigHasMajorType_loop_iff using assms(3-6) by blast
  with assms(1,2) have "PinConfigHasMajorType pin T"
    by (simp add: PinConfigHasMajorType_def)
  moreover from loop assms(1,2) have "PinConfigHasMajorType (pin\<lparr>EnumMediaTypes := offered\<rparr>) T"
    by (simp add: PinConfigHasMajorType_def)
  ultimately show ?thesis
    by (simp add: PinHasMajorType_def)
qed

theorem PinHasMajorType_capabilities_first_witness:
  "PinHasMajorType
     (caps_pin [None, Some \<lparr>majortype = MEDIATYPE_Audio\<rparr>, Some \<lparr>majortype = MEDIATYPE_Video\<rparr>]
        (Some [\<lparr>majortype = MEDIATYPE_Audio\<rparr>]))
     MEDIATYPE_Video"
  using PinHasMajorType_capabilities_first
    [where pin = "caps_pin [None, Some \<lparr>majortype = MEDIATYPE_Audio\<rparr>,
                            Some \<lparr>majortype = MEDIATYPE_Video\<rparr>] None"
       and config = "caps_config [None, Some \<lparr>majortype = MEDIATYPE_Audio\<rparr>,
                                  Some \<lparr>majortype = MEDIATYPE_Video\<rparr>]"
       and count = 3 and sz = 128 and j = 2 and mt = "\<lparr>majortype = MEDIATYPE_Video\<rparr>"
       and T = MEDIATYPE_Video and offered = "Some [\<lparr>majortype = MEDIATYPE_Audio\<rparr>]"]
  by (simp add: caps_pin_def plain_pin_def caps_config_def)

text \<open>
  The start value of the category variable reaches neither the result code nor, when
  the query succeeds, the category that is read.
\<close>

lemma GetPinCategory_start_irrelevant:
  "fst (GetPinCategory pin start) = fst (GetPinCategory pin start') \<and>
   (\<not> FAILED (fst (GetPinCategory pin start)) \<longrightarrow>
      snd (GetPinCategory pin start) = snd (GetPinCategory pin start'))"
  by (simp add: GetPinCategory_def FAILED_E_NOINTERFACE FAILED_E_POINTER split: option.splits)

text \<open>
  Claim C4, as stated, fails. A pin that has the property-set interface but whose
  property set answers "property not supported" for the category exposes no category
  property, and yet it is no automatic match: \<open>PinIsCategory\<close> answers false.
\<close>

theorem PinIsCategory_unsupported_property_counterexample:
  "FAILED (fst (GetPinCategory
     (Some (category_pin E_PROP_ID_UNSUPPORTED 0)) PIN_CATEGORY_CAPTURE)) \<and>
   \<not> PinIsCategory (Some (category_pin E_PROP_ID_UNSUPPORTED 0)) PIN_CATEGORY_CAPTURE"
  by (simp add: PinIsCategory_def GetPinCategory_def category_pin_def plain_pin_def
      E_PROP_ID_UNSUPPORTED_def FAILED_def E_NOINTERFACE_def)

text \<open>
  Claim C4, amended. For every pin without the property-set interface,
  \<open>PinIsCategory\<close> answers true for every requested category; for every pin whose
  category query succeeds, it answers true exactly when the category read equals the
  requested one; for every pin whose category query fails, it answers true exactly when
  the failure code is "no such interface", so any other failure is a non-match.
\<close>

theorem PinIsCategory_by_query_result:
  "(QueryInterface_IKsPropertySet pin = None \<longrightarrow> PinIsCategory (Some pin) category) \<and>
   (QueryInterface_IKsPropertySet pin = Some propertySet \<and>
    Get_PIN_CATEGORY propertySet = (hr, pinCategory) \<and> \<not> FAILED hr \<longrightarrow>
      PinIsCategory (Some pin) category = (category = pinCategory)) \<and>
   (QueryInterface_IKsPropertySet pin = Some propertySet \<and>
    Get_PIN_CATEGORY propertySet = (hr, pinCategory) \<and> FAILED hr \<longrightarrow>
      PinIsCategory (Some pin) category = (hr = E_NOINTERFACE))"
  by (simp add: PinIsCategory_def GetPinCategory_def FAILED_E_NOINTERFACE)

theorem PinIsCategory_by_query_result_witness:
  "PinIsCategory (Some plain_pin) PIN_CATEGORY_CAPTURE \<and>
   PinIsCategory (Some plain_pin) PIN_CATEGORY_PREVIEW \<and>
   PinIsCategory (Some (category_pin S_OK PIN_CATEGORY_CAPTURE)) PIN_CATEGORY_CAPTURE \<and>
   \<not> PinIsCategory (Some (category_pin S_OK PIN_CATEGORY_CAPTURE)) PIN_CATEGORY_PREVIEW \<and>
   \<not> PinIsCategory (Some (category_pin E_PROP_ID_UNSUPPORTED PIN_CATEGORY_CAPTURE))
       PIN_CATEGORY_CAPTURE"
proof (intro conjI)
  show "PinIsCategory (Some plain_pin) PIN_CATEGORY_CAPTURE"
    using PinIsCategory_by_query_result
      [where pin = plain_pin and category = PIN_CATEGORY_CAPTURE, THEN conjunct1]
    by (simp add: plain_pin_def)
  show "PinIsCategory (Some plain_pin) PIN_CATEGORY_PREVIEW"
    using PinIsCategory_by_query_result
      [where pin = plain_pin and category = PIN_CATEGORY_PREVIEW, THEN conjunct1]
    by (simp add: plain_pin_def)
  show "PinIsCategory (Some (category_pin S_OK PIN_CATEGORY_CAPTURE)) PIN_CATEGORY_CAPTURE"
    using PinIsCategory_by_query_result
      [where pin = "category_pin S_OK PIN_CATEGORY_CAPTURE"
         and propertySet = "\<lparr>Get_PIN_CATEGORY = (S_OK, PIN_CATEGORY_CAPTURE)\<rparr>"
         and hr = S_OK and pinCategory = PIN_CATEGORY_CAPTURE
         and category = PIN_CATEGORY_CAPTURE, THEN conjunct2, THEN conjunct1]
    by (simp add: category_pin_def plain_pin_def S_OK_def FAILED_def)
  show "\<not> PinIsCategory (Some (category_pin S_OK PIN_CATEGORY_CAPTURE)) PIN_CATEGORY_PREVIEW"
    using PinIsCategory_by_query_result
      [where pin = "category_pin S_OK PIN_CATEGORY_CAPTURE"
         and propertySet = "\<lparr>Get_PIN_CATEGORY = (S_OK, PIN_CATEGORY_CAPTURE)\<rparr>"
         and hr = S_OK and pinCategory = PIN_CATEGORY_CAPTURE
         and category = PIN_CATEGORY_PREVIEW, THEN conjunct2, THEN conjunct1]
    by (simp add: category_pin_def plain_pin_def S_OK_def FAILED_def
        PIN_CATEGORY_CAPTURE_def PIN_CATEGORY_PREVIEW_def)
  show "\<not> PinIsCategory (Some (category_pin E_PROP_ID_UNSUPPORTED PIN_CATEGORY_CAPTURE))
          PIN_CATEGORY_CAPTURE"
    using PinIsCategory_by_query_result
      [where pin = "category_pin E_PROP_ID_UNSUPPORTED PIN_CATEGORY_CAPTURE"
         and propertySet = "\<lparr>Get_PIN_CATEGORY = (E_PROP_ID_UNSUPPORTED, PIN_CATEGORY_CAPTURE)\<rparr>"
         and hr = E_PROP_ID_UNSUPPORTED and pinCategory = PIN_CATEGORY_CAPTURE
         and category = PIN_CATEGORY_CAPTURE, THEN conjunct2, THEN conjunct2]
    by (simp add: category_pin_def plain_pin_def E_PROP_ID_UNSUPPORTED_def FAILED_def
        E_NOINTERFACE_def)
qed

text \<open>
  Claim C5. For every pin, \<open>PinNameIs\<close> answers true when the name criterion is
  unset; with a set name it answers true exactly when the pin's information can be
  queried and the name it reports is the requested string, character for character.
\<close>

theorem PinNameIs_exact:
  "PinNameIs (Some pin) None = True \<and>
   PinNameIs (Some pin) (Some name) =
     (\<exists>pinInfo. QueryPinInfo pin = Some pinInfo \<and> achName pinInfo = name)"
  by (auto simp: PinNameIs_def wcscmp_eq_0_iff split: option.splits)

theorem PinNameIs_exact_witness:
  "PinNameIs (Some (named_pin ''Capture'')) None \<and>
   PinNameIs (Some (named_pin ''Capture'')) (Some ''Capture'') \<and>
   \<not> PinNameIs (Some (named_pin ''Capture'')) (Some ''capture'') \<and>
   \<not> PinNameIs (Some (named_pin ''Capture'')) (Some ''Capture 2'') \<and>
   \<not> PinNameIs (Some plain_pin) (Some ''Capture'')"
  using PinNameIs_exact [of "named_pin ''Capture''" "''Capture''"]
    PinNameIs_exact [of "named_pin ''Capture''" "''capture''"]
    PinNameIs_exact [of "named_pin ''Capture''" "''Capture 2''"]
    PinNameIs_exact [of plain_pin "''Capture''"]
  by (simp add: named_pin_def plain_pin_def)

section \<open>The medium of a pin\<close>

lemma GetPinMedium_loop_find:
  "GetPinMedium_loop items =
     find (\<lambda>m. clsMedium m \<noteq> GUID_NULL \<and> clsMedium m \<noteq> KSMEDIUMSETID_Standard) items"
  by (induction items) (auto simp: IsEqualGUID_def)

lemma GetPinMedium_loop_Some:
  "GetPinMedium_loop items = Some m \<Longrightarrow>
     m \<in> set items \<and> clsMedium m \<noteq> GUID_NULL \<and> clsMedium m \<noteq> KSMEDIUMSETID_Standard"
  by (induction items) (auto simp: IsEqualGUID_def split: if_splits)

lemma GetPinMedium_loop_None:
  "(GetPinMedium_loop items = None) =
     (\<forall>m \<in> set items. clsMedium m = GUID_NULL \<or> clsMedium m = KSMEDIUMSETID_Standard)"
  by (induction items) (auto simp: IsEqualGUID_def)

lemma GetPinMedium_start_irrelevant:
  "(GetPinMedium pin start = (True, m)) = (GetPinMedium pin start' = (True, m))"
  by (simp add: GetPinMedium_def split: option.splits)

text \<open>
  Claim C6. For every pin and every list of mediums the driver reports for it,
  \<open>GetPinMedium\<close> returns the first entry whose class is neither the null nor the
  standard sentinel; whatever the pin, a medium it returns with success has neither
  sentinel as its class; and when every reported entry is a sentinel it reports failure.
\<close>

theorem GetPinMedium_first_real_medium:
  "(QueryInterface_IKsPin pin = Some ksPin \<and> KsQueryMediums ksPin = Some items \<longrightarrow>
      GetPinMedium pin medium =
        (case find (\<lambda>m. clsMedium m \<noteq> GUID_NULL \<and> clsMedium m \<noteq> KSMEDIUMSETID_Standard)
                items of
           Some m \<Rightarrow> (True, m)
         | None \<Rightarrow> (False, zero_medium))) \<and>
   (fst (GetPinMedium pin medium) \<longrightarrow>
      clsMedium (snd (GetPinMedium pin medium)) \<noteq> GUID_NULL \<and>
      clsMedium (snd (GetPinMedium pin medium)) \<noteq> KSMEDIUMSETID_Standard) \<and>
   (QueryInterface_IKsPin pin = Some ksPin \<and> KsQueryMediums ksPin = Some items \<and>
    (\<forall>m \<in> set items. clsMedium m = GUID_NULL \<or> clsMedium m = KSMEDIUMSETID_Standard) \<longrightarrow>
      fst (GetPinMedium pin medium) = False)"
proof (intro conjI impI)
  assume a: "QueryInterface_IKsPin pin = Some ksPin \<and> KsQueryMediums ksPin = Some items"
  then show "GetPinMedium pin medium =
        (case find (\<lambda>m. clsMedium m \<noteq> GUID_NULL \<and> clsMedium m \<noteq> KSMEDIUMSETID_Standard)
                items of
           Some m \<Rightarrow> (True, m)
         | None \<Rightarrow> (False, zero_medium))"
    by (simp add: GetPinMedium_def GetPinMedium_loop_find split: option.splits)
next
  assume "fst (GetPinMedium pin medium)"
  then obtain its m where "GetPinMedium_loop its = Some m" "snd (GetPinMedium pin medium) = m"
    by (auto simp: GetPinMedium_def split: option.splits)
  then show "clsMedium (snd (GetPinMedium pin medium)) \<noteq> GUID_NULL"
    and "clsMedium (snd (GetPinMedium pin medium)) \<noteq> KSMEDIUMSETID_Standard"
    using GetPinMedium_loop_Some by blast+
next
  assume a: "QueryInterface_IKsPin pin = Some ksPin \<and> KsQueryMediums ksPin = Some items \<and>
    (\<forall>m \<in> set items. clsMedium m = GUID_NULL \<or> clsMedium m = KSMEDIUMSETID_Standard)"
  then have "GetPinMedium_loop items = None"
    by (simp add: GetPinMedium_loop_None)
  with a show "fst (GetPinMedium pin medium) = False"
    by (simp add: GetPinMedium_def)
qed

theorem GetPinMedium_first_real_medium_witness:
  "GetPinMedium (ks_pin (Some [null_entry, standard_entry, sample_medium, other_medium]))
     other_medium = (True, sample_medium) \<and>
   fst (GetPinMedium (ks_pin (Some [standard_entry, null_entry])) sample_medium) = False"
proof (intro conjI)
  show "GetPinMedium (ks_pin (Some [null_entry, standard_entry, sample_medium, other_medium]))
     other_medium = (True, sample_medium)"
    using GetPinMedium_first_real_medium
      [where pin = "ks_pin (Some [null_entry, standard_entry, sample_medium, other_medium])"
         and ksPin = "\<lparr>KsQueryMediums =
                         Some [null_entry, standard_entry, sample_medium, other_medium]\<rparr>"
         and items = "[null_entry, standard_entry, sample_medium, other_medium]"
         and medium = other_medium, THEN conjunct1]
    by (simp add: ks_pin_def plain_pin_def null_entry_def standard_entry_def
        sample_medium_def GUID_NULL_def KSMEDIUMSETID_Standard_def)
  show "fst (GetPinMedium (ks_pin (Some [standard_entry, null_entry])) sample_medium) = False"
    using GetPinMedium_first_real_medium
      [where pin = "ks_pin (Some [standard_entry, null_entry])"
         and ksPin = "\<lparr>KsQueryMediums = Some [standard_entry, null_entry]\<rparr>"
         and items = "[standard_entry, null_entry]"
         and medium = sample_medium, THEN conjunct2, THEN conjunct2]
    by (simp add: ks_pin_def plain_pin_def null_entry_def standard_entry_def)
qed

text \<open>
  Claim C10. When \<open>GetPinMedium\<close> fails, the caller's medium is left as it was if the
  pin has no medium interface or the driver query fails, and is set to all zeros if the
  query succeeds and every reported entry is a sentinel; a failure that changes the
  caller's medium is of the last kind.
\<close>

theorem GetPinMedium_out_on_failure:
  "(QueryInterface_IKsPin pin = None \<longrightarrow> GetPinMedium pin medium = (False, medium)) \<and>
   (QueryInterface_IKsPin pin = Some ksPin \<and> KsQueryMediums ksPin = None \<longrightarrow>
      GetPinMedium pin medium = (False, medium)) \<and>
   (QueryInterface_IKsPin pin = Some ksPin \<and> KsQueryMediums ksPin = Some items \<and>
    (\<forall>m \<in> set items. clsMedium m = GUID_NULL \<or> clsMedium m = KSMEDIUMSETID_Standard) \<longrightarrow>
      GetPinMedium pin medium = (False, \<lparr>clsMedium = 0, dw1 = 0, dw2 = 0\<rparr>)) \<and>
   (\<not> fst (GetPinMedium pin medium) \<and> snd (GetPinMedium pin medium) \<noteq> medium \<longrightarrow>
      (\<exists>k its. QueryInterface_IKsPin pin = Some k \<and> KsQueryMediums k = Some its \<and>
         (\<forall>m \<in> set its. clsMedium m = GUID_NULL \<or> clsMedium m = KSMEDIUMSETID_Standard)) \<and>
      snd (GetPinMedium pin medium) = \<lparr>clsMedium = 0, dw1 = 0, dw2 = 0\<rparr>)"
proof (intro conjI impI)
  assume "QueryInterface_IKsPin pin = None"
  then show "GetPinMedium pin medium = (False, medium)"
    by (simp add: GetPinMedium_def)
next
  assume "QueryInterface_IKsPin pin = Some ksPin \<and> KsQueryMediums ksPin = None"
  then show "GetPinMedium pin medium = (False, medium)"
    by (simp add: GetPinMedium_def)
next
  assume a: "QueryInterface_IKsPin pin = Some ksPin \<and> KsQueryMediums ksPin = Some items \<and>
    (\<forall>m \<in> set items. clsMedium m = GUID_NULL \<or> clsMedium m = KSMEDIUMSETID_Standard)"
  then have "GetPinMedium_loop items = None"
    by (simp add: GetPinMedium_loop_None)
  with a show "GetPinMedium pin medium = (False, \<lparr>clsMedium = 0, dw1 = 0, dw2 = 0\<rparr>)"
    by (simp add: GetPinMedium_def zero_medium_def)
next
  assume a: "\<not> fst (GetPinMedium pin medium) \<and> snd (GetPinMedium pin medium) \<noteq> medium"
  then obtain k its where k: "QueryInterface_IKsPin pin = Some k" "KsQueryMediums k = Some its"
      "GetPinMedium_loop its = None"
    by (auto simp: GetPinMedium_def split: option.splits)
  then show "\<exists>k its. QueryInterface_IKsPin pin = Some k \<and> KsQueryMediums k = Some its \<and>
         (\<forall>m \<in> set its. clsMedium m = GUID_NULL \<or> clsMedium m = KSMEDIUMSETID_Standard)"
    by (auto simp: GetPinMedium_loop_None)
  from k show "snd (GetPinMedium pin medium) = \<lparr>clsMedium = 0, dw1 = 0, dw2 = 0\<rparr>"
    by (simp add: GetPinMedium_def zero_medium_def)
qed

theorem GetPinMedium_out_on_failure_witness:
  "GetPinMedium plain_pin sample_medium = (False, sample_medium) \<and>
   GetPinMedium (ks_pin None) sample_medium = (False, sample_medium) \<and>
   GetPinMedium (ks_pin (Some [null_entry, standard_entry])) sample_medium =
     (False, \<lparr>clsMedium = 0, dw1 = 0, dw2 = 0\<rparr>)"
proof (intro conjI)
  show "GetPinMedium plain_pin sample_medium = (False, sample_medium)"
    using GetPinMedium_out_on_failure
      [where pin = plain_pin and medium = sample_medium, THEN conjunct1]
    by (simp add: plain_pin_def)
  show "GetPinMedium (ks_pin None) sample_medium = (False, sample_medium)"
    using GetPinMedium_out_on_failure
      [where pin = "ks_pin None" and medium = sample_medium
         and ksPin = "\<lparr>KsQueryMediums = None\<rparr>", THEN conjunct2, THEN conjunct1]
    by (simp add: plain_pin_def ks_pin_def)
  show "GetPinMedium (ks_pin (Some [null_entry, standard_entry])) sample_medium =
     (False, \<lparr>clsMedium = 0, dw1 = 0, dw2 = 0\<rparr>)"
    using GetPinMedium_out_on_failure
      [where pin = "ks_pin (Some [null_entry, standard_entry])" and medium = sample_medium
         and ksPin = "\<lparr>KsQueryMediums = Some [null_entry, standard_entry]\<rparr>"
         and items = "[null_entry, standard_entry]",
       THEN conjunct2, THEN conjunct2, THEN conjunct1]
    by (simp add: plain_pin_def ks_pin_def null_entry_def standard_entry_def)
qed

section \<open>The pin walks\<close>

lemma PinMatches_conj:
  "PinMatches pin type category dir =
     (PinHasMajorType pin type \<and> PinIsDirection (Some pin) dir \<and>
      PinIsCategory (Some pin) category)"
  by (simp add: PinMatches_def)

lemma GetFilterPin_loop_find:
  "GetFilterPin_loop pins type category dir pin =
     (case find (\<lambda>p. PinMatches p type category dir) pins of
        Some p \<Rightarrow> (True, Some p)
      | None \<Rightarrow> (False, pin))"
  by (induction pins) simp_all

lemma find_None_direction:
  "\<forall>p \<in> set pins. QueryDirection p = Some PINDIR_INPUT \<Longrightarrow>
     find (\<lambda>p. PinMatches p type category PINDIR_OUTPUT) pins = None"
  by (induction pins) (simp_all add: PinMatches_def PinIsDirection_def)

lemma GetPinByName_loop_find:
  "GetPinByName_loop pins dir name pin =
     (case find (\<lambda>p. PinIsDirection (Some p) dir \<and> PinNameIs (Some p) name) pins of
        Some p \<Rightarrow> (True, Some p)
      | None \<Rightarrow> (False, pin))"
  by (induction pins) simp_all

text \<open>
  Claim C8. \<open>GetFilterPin\<close> returns the first pin, in the order of the filter's
  enumeration, that has the major type, the direction and the category asked for, and
  not-found when no pin has all three; in particular it returns not-found for the output
  direction when every pin of the filter is an input pin, whatever their major types.
\<close>

theorem GetFilterPin_first_match:
  assumes "EnumPins f = Some pins"
  shows "GetFilterPin (Some f) type category dir pin =
           (case find (\<lambda>p. PinHasMajorType p type \<and> PinIsDirection (Some p) dir \<and>
                           PinIsCategory (Some p) category) pins of
              Some p \<Rightarrow> (True, Some p)
            | None \<Rightarrow> (False, pin)) \<and>
         ((\<forall>p \<in> set pins. QueryDirection p = Some PINDIR_INPUT) \<longrightarrow>
            GetFilterPin (Some f) type category PINDIR_OUTPUT pin = (False, pin))"
proof (intro conjI impI)
  show "GetFilterPin (Some f) type category dir pin =
           (case find (\<lambda>p. PinHasMajorType p type \<and> PinIsDirection (Some p) dir \<and>
                           PinIsCategory (Some p) category) pins of
              Some p \<Rightarrow> (True, Some p)
            | None \<Rightarrow> (False, pin))"
    using assms by (simp add: GetFilterPin_def GetFilterPin_loop_find PinMatches_conj)
next
  assume "\<forall>p \<in> set pins. QueryDirection p = Some PINDIR_INPUT"
  then have "find (\<lambda>p. PinMatches p type category PINDIR_OUTPUT) pins = None"
    by (rule find_None_direction)
  with assms show "GetFilterPin (Some f) type category PINDIR_OUTPUT pin = (False, pin)"
    by (simp add: GetFilterPin_def GetFilterPin_loop_find)
qed

theorem GetFilterPin_first_match_witness:
  "GetFilterPin (Some input_only_filter) MEDIATYPE_Video PIN_CATEGORY_CAPTURE PINDIR_OUTPUT None =
     (False, None) \<and>
   PinHasMajorType (typed_pin MEDIATYPE_Video PINDIR_INPUT) MEDIATYPE_Video \<and>
   GetFilterPin (Some capture_filter) MEDIATYPE_Video PIN_CATEGORY_CAPTURE PINDIR_OUTPUT None =
     (True, Some (typed_pin MEDIATYPE_Video PINDIR_OUTPUT))"
proof (intro conjI)
  show "GetFilterPin (Some input_only_filter) MEDIATYPE_Video PIN_CATEGORY_CAPTURE
          PINDIR_OUTPUT None = (False, None)"
    using GetFilterPin_first_match
      [where f = input_only_filter
         and pins = "[typed_pin MEDIATYPE_Video PINDIR_INPUT,
                      typed_pin MEDIATYPE_Audio PINDIR_INPUT]"
         and type = MEDIATYPE_Video and category = PIN_CATEGORY_CAPTURE and pin = None,
       THEN conjunct2]
    by (simp add: input_only_filter_def typed_pin_def plain_pin_def)
  show "PinHasMajorType (typed_pin MEDIATYPE_Video PINDIR_INPUT) MEDIATYPE_Video"
    by (simp add: PinHasMajorType_def PinConfigHasMajorType_def typed_pin_def plain_pin_def)
  show "GetFilterPin (Some capture_filter) MEDIATYPE_Video PIN_CATEGORY_CAPTURE
          PINDIR_OUTPUT None = (True, Some (typed_pin MEDIATYPE_Video PINDIR_OUTPUT))"
    using GetFilterPin_first_match
      [where f = capture_filter
         and pins = "[typed_pin MEDIATYPE_Video PINDIR_INPUT,
                      typed_pin MEDIATYPE_Audio PINDIR_OUTPUT,
                      typed_pin MEDIATYPE_Video PINDIR_OUTPUT,
                      (typed_pin MEDIATYPE_Video PINDIR_OUTPUT)
                        \<lparr>QueryPinInfo := Some \<lparr>achName = ''Capture''\<rparr>\<rparr>]"
         and type = MEDIATYPE_Video and category = PIN_CATEGORY_CAPTURE
         and dir = PINDIR_OUTPUT and pin = None, THEN conjunct1]
    by (simp add: capture_filter_def typed_pin_def plain_pin_def PinHasMajorType_def
        PinConfigHasMajorType_def PinIsDirection_def PinIsCategory_def GetPinCategory_def
        FAILED_E_NOINTERFACE MEDIATYPE_Video_def MEDIATYPE_Audio_def)
qed

text \<open>
  Claim C9. Called with a null filter, or with a filter whose pins cannot be
  enumerated, each of \<open>GetFilterPin\<close>, \<open>GetPinByName\<close> and \<open>GetPinByMedium\<close>
  returns false and leaves the caller's pin variable as it was.
\<close>

theorem pin_walks_need_enumeration:
  "flt = None \<or> (\<exists>f. flt = Some f \<and> EnumPins f = None) \<Longrightarrow>
     GetFilterPin flt type category dir pin = (False, pin) \<and>
     GetPinByName flt dir name pin = (False, pin) \<and>
     GetPinByMedium flt medium pin = (False, pin)"
  by (auto simp: GetFilterPin_def GetPinByName_def GetPinByMedium_def)

theorem pin_walks_need_enumeration_witness:
  "GetFilterPin None MEDIATYPE_Video PIN_CATEGORY_CAPTURE PINDIR_OUTPUT (Some plain_pin) =
     (False, Some plain_pin) \<and>
   GetPinByName None PINDIR_OUTPUT (Some ''Capture'') (Some plain_pin) =
     (False, Some plain_pin) \<and>
   GetPinByMedium None sample_medium (Some plain_pin) = (False, Some plain_pin) \<and>
   GetFilterPin (Some filterA) MEDIATYPE_Video PIN_CATEGORY_CAPTURE PINDIR_OUTPUT None =
     (False, None) \<and>
   GetPinByName (Some filterA) PINDIR_OUTPUT None None = (False, None) \<and>
   GetPinByMedium (Some filterA) sample_medium None = (False, None)"
  using pin_walks_need_enumeration
      [of None MEDIATYPE_Video PIN_CATEGORY_CAPTURE PINDIR_OUTPUT "Some plain_pin"
          "Some ''Capture''" sample_medium]
    pin_walks_need_enumeration
      [of "Some filterA" MEDIATYPE_Video PIN_CATEGORY_CAPTURE PINDIR_OUTPUT None None
          sample_medium]
  by (simp add: filterA_def)

section \<open>The filter of a medium\<close>

lemma GetPinByMedium_loop_fst:
  "fst (GetPinByMedium_loop pins medium pin) = list_ex (\<lambda>p. pin_has_medium p medium) pins"
proof (induction pins)
  case Nil
  show ?case by simp
next
  case (Cons p ps)
  obtain ok m where r: "GetPinMedium p zero_medium = (ok, m)"
    by (cases "GetPinMedium p zero_medium")
  then have "pin_has_medium p medium = (ok \<and> medium = m)"
    unfolding pin_has_medium_def by auto
  with r Cons.IH show ?case by auto
qed

lemma GetPinByMedium_fst:
  "fst (GetPinByMedium (Some f) medium pin) = exposes_medium f medium"
  by (simp add: GetPinByMedium_def exposes_medium_def GetPinByMedium_loop_fst
      split: option.splits)

lemma GetFilterByMediumFromMoniker_result:
  "GetFilterByMediumFromMoniker moniker medium flt =
     (if candidate_matches moniker medium then (True, BindToObject moniker) else (False, flt))"
proof (cases "BindToObject moniker")
  case None
  then show ?thesis
    by (simp add: GetFilterByMediumFromMoniker_def candidate_matches_def)
next
  case (Some f)
  obtain ok p where r: "GetPinByMedium (Some f) medium None = (ok, p)"
    by (cases "GetPinByMedium (Some f) medium None")
  then have "ok = exposes_medium f medium"
    using GetPinByMedium_fst [of f medium None] by simp
  with Some r show ?thesis
    by (simp add: GetFilterByMediumFromMoniker_def candidate_matches_def)
qed

lemma GetFilterByMedium_loop_find:
  "GetFilterByMedium_loop monikers medium flt =
     (case find (\<lambda>m. candidate_matches m medium) monikers of
        Some m \<Rightarrow> (True, BindToObject m)
      | None \<Rightarrow> (False, flt))"
  by (induction monikers) (simp_all add: GetFilterByMediumFromMoniker_result)

lemma crossbar_exposes_sample: "exposes_medium crossbar sample_medium"
  by (simp add: exposes_medium_def crossbar_def pin_has_medium_def GetPinMedium_def ks_pin_def
      plain_pin_def standard_entry_def sample_medium_def IsEqualGUID_def GUID_NULL_def
      KSMEDIUMSETID_Standard_def)

lemma tuner_lacks_sample: "\<not> exposes_medium tuner sample_medium"
  by (simp add: exposes_medium_def tuner_def pin_has_medium_def GetPinMedium_def ks_pin_def
      plain_pin_def null_entry_def sample_medium_def IsEqualGUID_def GUID_NULL_def
      KSMEDIUMSETID_Standard_def zero_medium_def)

text \<open>
  Claim C7. Within one class enumeration, a moniker that cannot be instantiated counts
  as a candidate that does not match and the traversal goes on: when exactly one
  candidate can be instantiated to a filter that exposes the medium, that filter is
  returned, wherever the candidates that fail to instantiate stand in the enumeration;
  and not-found is returned exactly when every candidate either fails to instantiate or
  does not expose the medium.
\<close>

theorem GetFilterByMedium_skips_failed_candidates:
  assumes "CoCreateInstance = Some deviceEnum" and "deviceEnum cls = Some monikers"
  shows "(i < length monikers \<and> BindToObject (monikers ! i) = Some f \<and>
          exposes_medium f medium \<and>
          (\<forall>j < length monikers. j \<noteq> i \<longrightarrow>
             (case BindToObject (monikers ! j) of
                None \<Rightarrow> True
              | Some g \<Rightarrow> \<not> exposes_medium g medium)) \<longrightarrow>
            GetFilterByMedium CoCreateInstance cls medium flt = (True, Some f)) \<and>
         ((fst (GetFilterByMedium CoCreateInstance cls medium flt) = False) =
            (\<forall>m \<in> set monikers.
               case BindToObject m of None \<Rightarrow> True | Some g \<Rightarrow> \<not> exposes_medium g medium))"
proof (intro conjI impI)
  assume a: "i < length monikers \<and> BindToObject (monikers ! i) = Some f \<and>
          exposes_medium f medium \<and>
          (\<forall>j < length monikers. j \<noteq> i \<longrightarrow>
             (case BindToObject (monikers ! j) of
                None \<Rightarrow> True
              | Some g \<Rightarrow> \<not> exposes_medium g medium))"
  then have here: "candidate_matches (monikers ! i) medium"
    by (simp add: candidate_matches_def)
  from a have "\<forall>j < length monikers. j \<noteq> i \<longrightarrow> \<not> candidate_matches (monikers ! j) medium"
    by (auto simp: candidate_matches_def split: option.splits)
  with a here have "find (\<lambda>m. candidate_matches m medium) monikers = Some (monikers ! i)"
    by (intro find_unique_index) simp_all
  with a assms show "GetFilterByMedium CoCreateInstance cls medium flt = (True, Some f)"
    by (simp add: GetFilterByMedium_def GetFilterByMedium_loop_find)
next
  have "(find (\<lambda>m. candidate_matches m medium) monikers = None) =
        (\<forall>m \<in> set monikers.
           case BindToObject m of None \<Rightarrow> True | Some g \<Rightarrow> \<not> exposes_medium g medium)"
    by (auto simp: find_None_iff candidate_matches_def split: option.splits)
  moreover have "(fst (GetFilterByMedium CoCreateInstance cls medium flt) = False) =
        (find (\<lambda>m. candidate_matches m medium) monikers = None)"
    using assms
    by (cases "find (\<lambda>m. candidate_matches m medium) monikers")
       (simp_all add: GetFilterByMedium_def GetFilterByMedium_loop_find)
  ultimately show "(fst (GetFilterByMedium CoCreateInstance cls medium flt) = False) =
            (\<forall>m \<in> set monikers.
               case BindToObject m of None \<Rightarrow> True | Some g \<Rightarrow> \<not> exposes_medium g medium)"
    by simp
qed

theorem GetFilterByMedium_skips_failed_candidates_witness:
  "BindToObject (class_monikers ! 0) = None \<and>
   GetFilterByMedium (Some (\<lambda>cls. Some class_monikers)) 77 sample_medium None =
     (True, Some crossbar)"
proof -
  have others: "\<forall>j < length class_monikers. j \<noteq> 3 \<longrightarrow>
             (case BindToObject (class_monikers ! j) of
                None \<Rightarrow> True
              | Some g \<Rightarrow> \<not> exposes_medium g sample_medium)"
  proof (intro allI impI)
    fix j assume "j < length class_monikers" "j \<noteq> 3"
    then have "j = 0 \<or> j = 1 \<or> j = 2"
      by (auto simp: class_monikers_def)
    then show "case BindToObject (class_monikers ! j) of
                None \<Rightarrow> True
              | Some g \<Rightarrow> \<not> exposes_medium g sample_medium"
      using tuner_lacks_sample by (auto simp: class_monikers_def)
  qed
  have first: "BindToObject (class_monikers ! 0) = None"
    by (simp add: class_monikers_def)
  have "3 < length class_monikers \<and> BindToObject (class_monikers ! 3) = Some crossbar"
    by (simp add: class_monikers_def)
  with others crossbar_exposes_sample first show ?thesis
    using GetFilterByMedium_skips_failed_candidates
      [where CoCreateInstance = "Some (\<lambda>cls. Some class_monikers)"
         and deviceEnum = "\<lambda>cls. Some class_monikers" and cls = 77
         and monikers = class_monikers and i = 3 and f = crossbar
         and medium = sample_medium and flt = None, THEN conjunct1]
    by simp
qed

end
